theory Spec2Isabelle
  imports Complex_Main
begin

section \<open>Dates and the date-fns helpers\<close>

text \<open>
  A JavaScript \<open>Date\<close> is its time value: the milliseconds since the epoch, an integer.
  \<open>new Date(record.timestamp)\<close> reads back the time value that \<open>toISOString\<close> wrote
  (the ISO string carries the milliseconds), so a timestamp is kept as that integer, and
  every \<open>new Date()\<close> of the source is the argument \<open>now\<close> of the function that
  samples it.

  The functions of date-fns the program calls work on the time value: \<open>addMinutes\<close>,
  \<open>addHours\<close> and \<open>subHours\<close> add a multiple of 60000 or 3600000 milliseconds, and
  \<open>differenceInMinutes\<close> divides the difference in milliseconds by 60000 and drops the
  fraction with \<open>Math.trunc\<close>, that is towards zero.
\<close>

type_synonym date = int

definition addMilliseconds :: "date \<Rightarrow> int \<Rightarrow> date" where
  "addMilliseconds d amnt = d + amnt"

definition addMinutes :: "date \<Rightarrow> int \<Rightarrow> date" where
  "addMinutes d amnt = addMilliseconds d (amnt * 60000)"

definition addHours :: "date \<Rightarrow> int \<Rightarrow> date" where
  "addHours d amnt = addMilliseconds d (amnt * 3600000)"

definition subHours :: "date \<Rightarrow> int \<Rightarrow> date" where
  "subHours d amnt = addHours d (- amnt)"

definition differenceInMilliseconds :: "date \<Rightarrow> date \<Rightarrow> int" where
  "differenceInMilliseconds dateLeft dateRight = dateLeft - dateRight"

text \<open>\<open>Math.trunc (diff / 60000)\<close> on an integer number of milliseconds.\<close>

definition differenceInMinutes :: "date \<Rightarrow> date \<Rightarrow> int" where
  "differenceInMinutes dateLeft dateRight =
     (let diff = differenceInMilliseconds dateLeft dateRight
      in if 0 \<le> diff then diff div 60000 else - ((- diff) div 60000))"

section \<open>Records and the aggregation functions\<close>

text \<open>
  A consumption record is \<open>{timestamp, amount}\<close>. The amount is a JavaScript number.
  Where amounts are added, it is modelled by an exact number type \<open>'n\<close> (\<open>real\<close> for the
  decimal amounts of the variant with the configurable waiting time,
  \<open>src/unnamed/part_000\<close>, and \<open>int\<close> for the amounts that \<open>parseInt\<close> yields in the
  variant with the fixed hour, \<open>src/src/App.jsx\<close>, below called the simple variant), so
  the rounding of IEEE addition is not part of the model. The handlers only store the
  amount, whatever \<open>parseFloat\<close> returned: there it is a \<open>number\<close>, or \<open>null\<close> once
  JSON has written a \<open>NaN\<close> or an infinity.
\<close>

record 'n consumption =
  timestamp :: date
  amount :: 'n

text \<open>\<open>records.reduce((sum, record) => sum + record.amount, 0)\<close>\<close>

definition totalConsumption :: "('n::monoid_add) consumption list \<Rightarrow> 'n" where
  "totalConsumption records = foldl (\<lambda>sum record. sum + amount record) 0 records"

definition calculateRecentConsumption ::
  "('n::monoid_add) consumption list \<Rightarrow> int \<Rightarrow> date \<Rightarrow> 'n" where
  "calculateRecentConsumption records hoursAgo now =
     (let cutoffTime = subHours now hoursAgo
      in foldl (\<lambda>sum record. sum + amount record) 0
           (filter (\<lambda>record. timestamp record > cutoffTime) records))"

text \<open>
  \<open>getWaitingTime\<close> of \<open>src/unnamed/part_000\<close>, and of the simple variant, where the
  waiting time is one hour.
\<close>

definition getWaitingTime :: "date \<Rightarrow> int \<Rightarrow> date \<Rightarrow> int" where
  "getWaitingTime lastConsumptionTime waitingMinutes now =
     (let waitTimeAfterLast = addMinutes lastConsumptionTime waitingMinutes;
          waitMinutes = differenceInMinutes waitTimeAfterLast now
      in if waitMinutes > 0 then waitMinutes else 0)"

definition getWaitingTime_simple :: "date \<Rightarrow> date \<Rightarrow> int" where
  "getWaitingTime_simple lastConsumptionTime now =
     (let oneHourAfterLast = addHours lastConsumptionTime 1;
          waitMinutes = differenceInMinutes oneHourAfterLast now
      in if waitMinutes > 0 then waitMinutes else 0)"

text \<open>
  The component's \<open>lastConsumptionTime\<close> and \<open>minutesSinceLastConsumption\<close>:
  \<open>null\<close> on an empty list, else taken from the last element of the list.
\<close>

definition lastConsumptionTime :: "'n consumption list \<Rightarrow> date option" where
  "lastConsumptionTime records =
     (if length records > 0 then Some (timestamp (records ! (length records - 1))) else None)"

definition minutesSinceLastConsumption :: "'n consumption list \<Rightarrow> date \<Rightarrow> int option" where
  "minutesSinceLastConsumption records now =
     (case lastConsumptionTime records of
        Some t \<Rightarrow> Some (differenceInMinutes now t)
      | None \<Rightarrow> None)"

text \<open>
  The specification's wording of the remaining waiting time, to compare with the code:
  the waiting minutes minus the whole minutes elapsed since the last record (the
  component's \<open>differenceInMinutes(new Date(), new Date(lastConsumptionTime))\<close>),
  never below 0.
\<close>

definition minutesElapsed :: "date \<Rightarrow> date \<Rightarrow> int" where
  "minutesElapsed lastTimestamp now = differenceInMinutes now lastTimestamp"

definition waitingTimeRemaining_spec :: "date \<Rightarrow> int \<Rightarrow> date \<Rightarrow> int" where
  "waitingTimeRemaining_spec lastTimestamp waitingMinutes now =
     max 0 (waitingMinutes - minutesElapsed lastTimestamp now)"

section \<open>Strings\<close>

text \<open>
  A string is a list of characters. The model covers ASCII text: \<open>toLowerCase\<close> maps
  the letters A to Z, and the white space that \<open>trim\<close> strips is tab, line feed,
  vertical tab, form feed, carriage return and space.
\<close>

definition isWhiteSpace :: "char \<Rightarrow> bool" where
  "isWhiteSpace c = (of_char c \<in> {9, 10, 11, 12, 13, 32 :: nat})"

definition trim :: "string \<Rightarrow> string" where
  "trim s = rev (dropWhile isWhiteSpace (rev (dropWhile isWhiteSpace s)))"

definition toLowerCase_char :: "char \<Rightarrow> char" where
  "toLowerCase_char c =
     (let n = of_char c :: nat in if 65 \<le> n \<and> n \<le> 90 then char_of (n + 32) else c)"

definition toLowerCase :: "string \<Rightarrow> string" where
  "toLowerCase s = map toLowerCase_char s"

fun startsWith :: "string \<Rightarrow> string \<Rightarrow> bool" where
  "startsWith s [] = True"
| "startsWith [] (c # searchString) = False"
| "startsWith (d # s) (c # searchString) = (d = c \<and> startsWith s searchString)"

text \<open>\<open>String.prototype.includes\<close>: the search string occurs at some position.\<close>

fun str_includes :: "string \<Rightarrow> string \<Rightarrow> bool" where
  "str_includes [] searchString = (searchString = [])"
| "str_includes (c # s) searchString =
     (startsWith (c # s) searchString \<or> str_includes s searchString)"

text \<open>\<open>Array.prototype.join\<close> on an array of strings.\<close>

fun join :: "string \<Rightarrow> string list \<Rightarrow> string" where
  "join separator [] = []"
| "join separator [x] = x"
| "join separator (x # y # ys) = x @ separator @ join separator (y # ys)"

definition isDigit :: "char \<Rightarrow> bool" where
  "isDigit c = (let n = of_char c :: nat in 48 \<le> n \<and> n \<le> 57)"

definition decimalValue :: "string \<Rightarrow> int" where
  "decimalValue s = foldl (\<lambda>n c. 10 * n + (of_char c - 48)) 0 s"

text \<open>The decimal digits of an integer that is not negative.\<close>

function digitsOf :: "int \<Rightarrow> string" where
  "digitsOf n =
     (if n < 10 then [char_of (48 + n)] else digitsOf (n div 10) @ [char_of (48 + n mod 10)])"
  by pat_completeness auto
termination
  by (relation "measure nat") auto

declare digitsOf.simps [simp del]

section \<open>Numbers as text\<close>

text \<open>
  \<open>Number::toString\<close> of an integer-valued number below \<open>10^21\<close> in magnitude: its
  decimal digits, after a minus sign when it is negative. (From \<open>10^21\<close> on JavaScript
  switches to the exponent notation, which is outside this definition.)
\<close>

definition Number_toString :: "int \<Rightarrow> string" where
  "Number_toString x = (if x < 0 then ''-'' else []) @ digitsOf \<bar>x\<bar>"

text \<open>
  \<open>Number.prototype.toFixed\<close> on a finite number, step by step as ECMAScript gives it:
  the sign is split off, a value from \<open>10^21\<close> on is printed by \<open>Number::toString\<close>
  (the argument \<open>numToString\<close>: the shortest digits that read back as the same double
  are a matter of the IEEE representation), and below that \<open>n\<close> is the integer nearest to
  \<open>x * 10^f\<close>, the larger one on a tie, printed with \<open>f\<close> digits after the point.
\<close>

definition toFixed :: "(real \<Rightarrow> string) \<Rightarrow> real \<Rightarrow> nat \<Rightarrow> string" where
  "toFixed numToString x0 f =
     (let s = (if x0 < 0 then ''-'' else []);
          x = (if x0 < 0 then - x0 else x0)
      in if x \<ge> 10 ^ 21 then s @ numToString x
         else
           let n = \<lfloor>x * 10 ^ f + 1 / 2\<rfloor>;
               m = digitsOf n;
               m = (if f \<noteq> 0
                    then (let k = length m;
                              m = (if k \<le> f then replicate (f + 1 - k) (CHR ''0'') @ m else m);
                              k = length m
                          in take (k - f) m @ ''.'' @ drop (k - f) m)
                    else m)
           in s @ m)"

text \<open>
  \<open>parseFloat\<close>: leading white space is skipped, then the longest prefix that is a
  decimal literal (sign, digits, fraction, exponent, or the word Infinity) gives the
  value, and \<open>NaN\<close> is the result when there is none. The value is kept exact.
\<close>

datatype number = NaN | PosInfinity | NegInfinity | Finite real

definition parseSign :: "string \<Rightarrow> bool \<times> string" where
  "parseSign s =
     (case s of
        [] \<Rightarrow> (False, [])
      | c # cs \<Rightarrow>
          if c = CHR ''-'' then (True, cs) else if c = CHR ''+'' then (False, cs) else (False, s))"

definition parseExponent :: "string \<Rightarrow> int" where
  "parseExponent s =
     (case s of
        [] \<Rightarrow> 0
      | c # cs \<Rightarrow>
          if c = CHR ''e'' \<or> c = CHR ''E''
          then (let (negative, ds) = parseSign cs;
                    expDigits = takeWhile isDigit ds
                in if expDigits = [] then 0
                   else if negative then - decimalValue expDigits
                   else decimalValue expDigits)
          else 0)"

definition parseFloat :: "string \<Rightarrow> number" where
  "parseFloat inputString =
     (let trimmed = dropWhile isWhiteSpace inputString;
          (negative, rest) = parseSign trimmed
      in if startsWith rest ''Infinity'' then (if negative then NegInfinity else PosInfinity)
         else
           let intDigits = takeWhile isDigit rest;
               afterInt = dropWhile isDigit rest;
               (fracDigits, afterFrac) =
                 (case afterInt of
                    [] \<Rightarrow> ([], [])
                  | c # cs \<Rightarrow>
                      if c = CHR ''.'' then (takeWhile isDigit cs, dropWhile isDigit cs)
                      else ([], afterInt))
           in if intDigits = [] \<and> fracDigits = [] then NaN
              else
                let e = parseExponent afterFrac;
                    mantissa = real_of_int (decimalValue intDigits)
                      + real_of_int (decimalValue fracDigits) / 10 ^ length fracDigits;
                    v = (if 0 \<le> e then mantissa * 10 ^ nat e else mantissa / 10 ^ nat (- e))
                in Finite (if negative then - v else v))"

section \<open>Objects as dictionaries and the local storage\<close>

text \<open>
  The users document is a plain JavaScript object used as a dictionary from user ID to
  record list. It is modelled by the list of its own properties in the order of their
  creation.

  Reading \<open>users[k]\<close> gives the own property when there is one. Otherwise the object's
  prototype answers: for a name of \<open>Object.prototype\<close> the result is the inherited member
  (a function, or for \<open>__proto__\<close> the prototype object itself), which is truthy, is not
  an array and cannot be spread; for any other name it is \<open>undefined\<close>.

  An assignment \<open>users[k] = v\<close> replaces the value of an own property in place.
  Otherwise it creates a new own property last, except for the key \<open>__proto__\<close>, whose
  inherited setter makes \<open>v\<close> the prototype of the object and creates no own property.
  (No handler reads the object after such an assignment, other than \<open>JSON.stringify\<close>,
  which writes own properties only, so the new prototype is not kept in the model.)

  \<open>Object.keys\<close>, \<open>Object.values\<close>, \<open>Object.entries\<close> and \<open>JSON.stringify\<close> visit the
  own properties in the order ECMAScript fixes: first the keys that are array indices
  (the decimal numerals without a leading zero below \<open>2^32 - 1\<close>) in ascending numeric
  order, then the other keys in the order of their creation.
\<close>

type_synonym 'v object = "(string \<times> 'v) list"

datatype 'v property = Undefined | Own 'v | Inherited

definition Object_prototype_names :: "string list" where
  "Object_prototype_names =
     [''constructor'', ''__defineGetter__'', ''__defineSetter__'', ''hasOwnProperty'',
      ''__lookupGetter__'', ''__lookupSetter__'', ''isPrototypeOf'', ''propertyIsEnumerable'',
      ''toString'', ''valueOf'', ''__proto__'', ''toLocaleString'']"

definition get_prop :: "'v object \<Rightarrow> string \<Rightarrow> 'v property" where
  "get_prop obj k =
     (case map_of obj k of
        Some v \<Rightarrow> Own v
      | None \<Rightarrow> if k \<in> set Object_prototype_names then Inherited else Undefined)"

fun set_prop :: "'v object \<Rightarrow> string \<Rightarrow> 'v \<Rightarrow> 'v object" where
  "set_prop [] k v = (if k = ''__proto__'' then [] else [(k, v)])"
| "set_prop ((k', v') # obj) k v =
     (if k' = k then (k, v) # obj else (k', v') # set_prop obj k v)"

definition isArrayIndex :: "string \<Rightarrow> bool" where
  "isArrayIndex k =
     (k \<noteq> [] \<and> list_all isDigit k \<and> (k = ''0'' \<or> hd k \<noteq> CHR ''0'')
      \<and> decimalValue k < 2 ^ 32 - 1)"

definition Object_entries :: "'v object \<Rightarrow> (string \<times> 'v) list" where
  "Object_entries obj =
     sort_key (\<lambda>p. decimalValue (fst p)) (filter (\<lambda>p. isArrayIndex (fst p)) obj)
     @ filter (\<lambda>p. \<not> isArrayIndex (fst p)) obj"

definition Object_keys :: "'v object \<Rightarrow> string list" where
  "Object_keys obj = map fst (Object_entries obj)"

definition Object_values :: "'v object \<Rightarrow> 'v list" where
  "Object_values obj = map snd (Object_entries obj)"

text \<open>
  The local storage holds two items. The item \<open>alcoholTracker\<close> is the JSON text of the
  users document, kept as the list of the entries of the text, in the order of the text
  (\<open>None\<close> while the item is absent); the timestamp of a record stands for its ISO
  string. The item \<open>waitingTime\<close> is the text that \<open>saveWaitingTime\<close> wrote.

  \<open>getStoredUsers\<close> gives the entries of the text, or none when the item is absent. The
  type \<open>'n\<close> is what the text holds as an amount: \<open>real\<close> or \<open>int\<close> where the exports read
  a document whose amounts are all numbers, and \<open>real option\<close> for the handlers, where
  \<open>None\<close> is the JSON \<open>null\<close>.
\<close>

record 'n localStorage =
  alcoholTracker :: "'n consumption list object option"
  waitingTime :: "string option"

definition getStoredUsers :: "'n localStorage \<Rightarrow> 'n consumption list object" where
  "getStoredUsers ls = (case alcoholTracker ls of Some users \<Rightarrow> users | None \<Rightarrow> [])"

text \<open>
  In a handler the amount of a record is a JavaScript value: a Number, which may be
  \<open>NaN\<close> or infinite, or \<open>null\<close> (\<open>None\<close>). \<open>JSON.parse\<close> reads a number of the text as
  that Number and \<open>null\<close> as \<open>null\<close>. \<open>JSON.stringify\<close> writes the own properties in the
  order of \<open>Object.entries\<close>, a finite amount as its number, and an amount that is
  \<open>NaN\<close>, infinite or \<open>null\<close> as \<open>null\<close>.
\<close>

definition JSON_parse_amount :: "real option \<Rightarrow> number option" where
  "JSON_parse_amount a = (case a of Some r \<Rightarrow> Some (Finite r) | None \<Rightarrow> None)"

definition JSON_stringify_amount :: "number option \<Rightarrow> real option" where
  "JSON_stringify_amount a = (case a of Some (Finite r) \<Rightarrow> Some r | _ \<Rightarrow> None)"

definition JSON_parse ::
  "real option consumption list object \<Rightarrow> number option consumption list object" where
  "JSON_parse entries =
     map (\<lambda>(k, recs).
            (k, map (\<lambda>r. \<lparr>timestamp = timestamp r, amount = JSON_parse_amount (amount r)\<rparr>) recs))
         entries"

definition JSON_stringify ::
  "number option consumption list object \<Rightarrow> real option consumption list object" where
  "JSON_stringify users =
     map (\<lambda>(k, recs).
            (k, map (\<lambda>r. \<lparr>timestamp = timestamp r, amount = JSON_stringify_amount (amount r)\<rparr>)
                  recs))
         (Object_entries users)"

definition saveUsers ::
  "number option consumption list object \<Rightarrow> real option localStorage \<Rightarrow> real option localStorage"
where
  "saveUsers users ls = ls\<lparr>alcoholTracker := Some (JSON_stringify users)\<rparr>"

section \<open>The exports\<close>

text \<open>
  The exports build \<open>csvRows\<close> with \<open>push\<close> and return
  \<open>csvRows.map(row => row.join(',')).join('\n')\<close>, the text that is offered for
  download. A cell that the source leaves a number (\<open>record.amount\<close>) is converted where
  it is pushed, as \<open>join\<close> converts it. \<open>format\<close> is date-fns' function, applied to a
  date and a pattern; it and \<open>Number::toString\<close> on decimal amounts are arguments of the
  model.
\<close>

definition csvContent :: "string list list \<Rightarrow> string" where
  "csvContent csvRows = join [CHR 0x0A] (map (\<lambda>row. join '','' row) csvRows)"

text \<open>
  \<open>downloadCSV\<close> of \<open>src/unnamed/part_000\<close>. The row that it pushes last, with the
  total printed by \<open>toFixed(1)\<close>, is \<open>summaryRow\<close>.
\<close>

definition summaryRow :: "(real \<Rightarrow> string) \<Rightarrow> real consumption list \<Rightarrow> string list" where
  "summaryRow numToString records =
     [''Total Consumption'', '''',
      toFixed numToString (foldl (\<lambda>sum record. sum + amount record) 0 records) 1 @ '' ml'']"

definition downloadCSV_rows ::
  "(date \<Rightarrow> string \<Rightarrow> string) \<Rightarrow> (real \<Rightarrow> string) \<Rightarrow> real consumption list \<Rightarrow> string list list"
where
  "downloadCSV_rows format numToString records =
     (let headers = [''Date'', ''Time'', ''Amount (ml)''];
          csvRows = [headers];
          csvRows = foldl (\<lambda>csvRows record.
                       let date = timestamp record
                       in csvRows @ [[format date ''yyyy-MM-dd'', format date ''HH:mm:ss'',
                                      numToString (amount record)]])
                     csvRows records;
          csvRows = csvRows @ [[]];
          csvRows = csvRows @ [summaryRow numToString records]
      in csvRows)"

definition downloadCSV ::
  "(date \<Rightarrow> string \<Rightarrow> string) \<Rightarrow> (real \<Rightarrow> string) \<Rightarrow> real consumption list \<Rightarrow> string"
where
  "downloadCSV format numToString records =
     csvContent (downloadCSV_rows format numToString records)"

text \<open>
  \<open>downloadCSV\<close> of \<open>src/src/App.jsx\<close>: the amounts are the integers of \<open>parseInt\<close>, and
  the total is appended to \<open>' ml'\<close> as it is, without \<open>toFixed\<close>.
\<close>

definition summaryRow_simple :: "int consumption list \<Rightarrow> string list" where
  "summaryRow_simple records =
     [''Total Consumption'', '''',
      Number_toString (foldl (\<lambda>sum record. sum + amount record) 0 records) @ '' ml'']"

definition downloadCSV_simple_rows ::
  "(date \<Rightarrow> string \<Rightarrow> string) \<Rightarrow> int consumption list \<Rightarrow> string list list"
where
  "downloadCSV_simple_rows format records =
     (let headers = [''Date'', ''Time'', ''Amount (ml)''];
          csvRows = [headers];
          csvRows = foldl (\<lambda>csvRows record.
                       let date = timestamp record
                       in csvRows @ [[format date ''yyyy-MM-dd'', format date ''HH:mm:ss'',
                                      Number_toString (amount record)]])
                     csvRows records;
          csvRows = csvRows @ [[]];
          csvRows = csvRows @ [summaryRow_simple records]
      in csvRows)"

definition downloadCSV_simple ::
  "(date \<Rightarrow> string \<Rightarrow> string) \<Rightarrow> int consumption list \<Rightarrow> string"
where
  "downloadCSV_simple format records = csvContent (downloadCSV_simple_rows format records)"

text \<open>\<open>downloadAllUsersCSV\<close> of \<open>src/unnamed/part_000\<close>, and its grand total.\<close>

definition grandTotal :: "('n::monoid_add) consumption list object \<Rightarrow> 'n" where
  "grandTotal users =
     foldl (\<lambda>total records. total + foldl (\<lambda>sum record. sum + amount record) 0 records)
       0 (Object_values users)"

definition downloadAllUsersCSV_rows ::
  "(date \<Rightarrow> string \<Rightarrow> string) \<Rightarrow> (real \<Rightarrow> string) \<Rightarrow> real localStorage \<Rightarrow> string list list"
where
  "downloadAllUsersCSV_rows format numToString ls =
     (let users = getStoredUsers ls;
          headers = [''User ID'', ''Date'', ''Time'', ''Amount (ml)''];
          csvRows = [headers];
          csvRows = foldl (\<lambda>csvRows (userId, records).
                       if length records = 0 then csvRows
                       else
                         let csvRows = foldl (\<lambda>csvRows record.
                                          let date = timestamp record
                                          in csvRows @ [[userId, format date ''yyyy-MM-dd'',
                                                         format date ''HH:mm:ss'',
                                                         toFixed numToString (amount record) 1]])
                                        csvRows records;
                             csvRows = csvRows @ [[]];
                             csvRows = csvRows @
                               [[''Total for '' @ userId, '''', '''',
                                 toFixed numToString
                                   (foldl (\<lambda>sum record. sum + amount record) 0 records) 1
                                   @ '' ml'']]
                         in csvRows @ [[]])
                     csvRows (Object_entries users)
      in csvRows @
           [[''Grand Total'', '''', '''', toFixed numToString (grandTotal users) 1 @ '' ml'']])"

definition downloadAllUsersCSV ::
  "(date \<Rightarrow> string \<Rightarrow> string) \<Rightarrow> (real \<Rightarrow> string) \<Rightarrow> real localStorage \<Rightarrow> string"
where
  "downloadAllUsersCSV format numToString ls =
     csvContent (downloadAllUsersCSV_rows format numToString ls)"

text \<open>\<open>downloadAllUsersCSV\<close> of \<open>src/src/App.jsx\<close>: the same rows without \<open>toFixed\<close>.\<close>

definition downloadAllUsersCSV_simple_rows ::
  "(date \<Rightarrow> string \<Rightarrow> string) \<Rightarrow> int localStorage \<Rightarrow> string list list"
where
  "downloadAllUsersCSV_simple_rows format ls =
     (let users = getStoredUsers ls;
          headers = [''User ID'', ''Date'', ''Time'', ''Amount (ml)''];
          csvRows = [headers];
          csvRows = foldl (\<lambda>csvRows (userId, records).
                       if length records = 0 then csvRows
                       else
                         let csvRows = foldl (\<lambda>csvRows record.
                                          let date = timestamp record
                                          in csvRows @ [[userId, format date ''yyyy-MM-dd'',
                                                         format date ''HH:mm:ss'',
                                                         Number_toString (amount record)]])
                                        csvRows records;
                             csvRows = csvRows @ [[]];
                             csvRows = csvRows @
                               [[''Total for '' @ userId, '''', '''',
                                 Number_toString
                                   (foldl (\<lambda>sum record. sum + amount record) 0 records)
                                   @ '' ml'']]
                         in csvRows @ [[]])
                     csvRows (Object_entries users)
      in csvRows @
           [[''Grand Total'', '''', '''', Number_toString (grandTotal users) @ '' ml'']])"

section \<open>The component: selection, creation and appending\<close>

text \<open>
  The state of the component that the handlers read and write (\<open>amount\<close> is the text of
  the amount field, here \<open>amountText\<close>; \<open>currentUser\<close> is \<open>null\<close> or an ID). A handler
  takes the local storage and the state and returns both, or the error it throws.
\<close>

record 'n component =
  userId :: string
  showNewUserPrompt :: bool
  currentUser :: "string option"
  amountText :: string
  records :: "'n consumption list"
  suggestions :: "string list"

datatype error = TypeError

text \<open>
  The state after an event: a handler that throws has written nothing before it throws,
  so the state is the one before the event.
\<close>

definition stateAfter :: "'s \<Rightarrow> error + 's \<Rightarrow> 's" where
  "stateAfter before result = (case result of Inl e \<Rightarrow> before | Inr after \<Rightarrow> after)"

text \<open>
  The effect that follows the ID field: the suggestions are the keys of the stored
  document that contain the field's text, both in lower case, and none when the text is
  empty after \<open>trim\<close>.
\<close>

definition suggestionsEffect ::
  "'j localStorage \<times> 'n component \<Rightarrow> 'j localStorage \<times> 'n component" where
  "suggestionsEffect = (\<lambda>(ls, c).
     if trim (userId c) \<noteq> []
     then (let users = getStoredUsers ls;
               matches = filter (\<lambda>id. str_includes (toLowerCase id) (toLowerCase (userId c)))
                           (Object_keys users)
           in (ls, c\<lparr>suggestions := matches\<rparr>))
     else (ls, c\<lparr>suggestions := []\<rparr>))"

text \<open>
  \<open>handleSearch(selectedId = userId)\<close>: \<open>None\<close> is the call without an argument. An
  array, empty or not, is truthy, so an own property is found. An inherited member is
  truthy too: the handler stores it as \<open>records\<close>, and the render that follows calls
  \<open>records.reduce\<close> on what is not an array and throws, which ends the event in a
  \<open>TypeError\<close>.
\<close>

definition handleSearch ::
  "string option \<Rightarrow> real option localStorage \<times> number option component
     \<Rightarrow> error + (real option localStorage \<times> number option component)" where
  "handleSearch arg = (\<lambda>(ls, c).
     let selectedId = (case arg of Some a \<Rightarrow> a | None \<Rightarrow> userId c);
         users = JSON_parse (getStoredUsers ls)
     in case get_prop users selectedId of
          Own found \<Rightarrow>
            Inr (ls, c\<lparr>currentUser := Some selectedId, records := found,
                       showNewUserPrompt := False, userId := selectedId, suggestions := []\<rparr>)
        | Inherited \<Rightarrow> Inl TypeError
        | Undefined \<Rightarrow>
            Inr (ls, c\<lparr>showNewUserPrompt := True, currentUser := None, records := []\<rparr>))"

definition handleCreateUser ::
  "real option localStorage \<times> number option component
     \<Rightarrow> real option localStorage \<times> number option component" where
  "handleCreateUser = (\<lambda>(ls, c).
     let users = JSON_parse (getStoredUsers ls);
         users = set_prop users (userId c) [];
         ls = saveUsers users ls
     in (ls, c\<lparr>currentUser := Some (userId c), records := [], showNewUserPrompt := False\<rparr>))"

text \<open>
  The amount field is \<open><input type="number">\<close>, and \<open>amount\<close> is written by its
  \<open>onChange\<close> only (and cleared by \<open>handleAddRecord\<close>). The value of such a field is the
  text typed when that is a valid floating-point number of HTML (an optional minus sign,
  digits with an optional fraction or a fraction alone, an optional exponent), and the
  empty string otherwise.
\<close>

definition validExponent :: "string \<Rightarrow> bool" where
  "validExponent s =
     (case s of
        [] \<Rightarrow> True
      | c # cs \<Rightarrow>
          (c = CHR ''e'' \<or> c = CHR ''E'')
          \<and> (let ds = (case cs of
                         [] \<Rightarrow> []
                       | d # ds' \<Rightarrow> if d = CHR ''-'' \<or> d = CHR ''+'' then ds' else cs)
             in ds \<noteq> [] \<and> list_all isDigit ds))"

definition validFloatingPointNumber :: "string \<Rightarrow> bool" where
  "validFloatingPointNumber s =
     (let unsigned = (case s of [] \<Rightarrow> [] | c # cs \<Rightarrow> if c = CHR ''-'' then cs else s);
          intDigits = takeWhile isDigit unsigned;
          afterInt = dropWhile isDigit unsigned
      in case afterInt of
           c # cs \<Rightarrow>
             if c = CHR ''.''
             then takeWhile isDigit cs \<noteq> [] \<and> validExponent (dropWhile isDigit cs)
             else intDigits \<noteq> [] \<and> validExponent afterInt
         | [] \<Rightarrow> intDigits \<noteq> [])"

definition numberInputValue :: "string \<Rightarrow> string" where
  "numberInputValue typed = (if validFloatingPointNumber typed then typed else [])"

text \<open>\<open>onChange={(e) => setAmount(e.target.value)}\<close>\<close>

definition onChangeAmount ::
  "string \<Rightarrow> 'j localStorage \<times> 'n component \<Rightarrow> 'j localStorage \<times> 'n component" where
  "onChangeAmount typed = (\<lambda>(ls, c). (ls, c\<lparr>amountText := numberInputValue typed\<rparr>))"

text \<open>
  \<open>handleAddRecord\<close>. The guard \<open>!amount || !currentUser\<close> holds for the empty text,
  for \<open>null\<close> and for the empty ID. \<open>parseAmount\<close> is \<open>parseFloat\<close> in
  \<open>src/unnamed/part_000\<close> and \<open>parseInt(_, 10)\<close> in \<open>src/src/App.jsx\<close>; the handler is
  otherwise the same in both. The spread \<open>[...(users[currentUser] || []), newRecord]\<close>
  throws a \<open>TypeError\<close> when \<open>users[currentUser]\<close> is an inherited member, before
  anything is written. After the assignment \<open>users[currentUser]\<close> is the new list, which
  \<open>setRecords\<close> receives.
\<close>

definition handleAddRecord ::
  "(string \<Rightarrow> number) \<Rightarrow> date \<Rightarrow> real option localStorage \<times> number option component
     \<Rightarrow> error + (real option localStorage \<times> number option component)" where
  "handleAddRecord parseAmount now = (\<lambda>(ls, c).
     case currentUser c of
       None \<Rightarrow> Inr (ls, c)
     | Some cu \<Rightarrow>
         if amountText c = [] \<or> cu = [] then Inr (ls, c)
         else
           let users = JSON_parse (getStoredUsers ls);
               newRecord = \<lparr>timestamp = now, amount = Some (parseAmount (amountText c))\<rparr>
           in case get_prop users cu of
                Inherited \<Rightarrow> Inl TypeError
              | found \<Rightarrow>
                  let updated = (case found of Own old \<Rightarrow> old | _ \<Rightarrow> []) @ [newRecord];
                      users = set_prop users cu updated;
                      ls = saveUsers users ls
                  in Inr (ls, c\<lparr>records := updated, amountText := []\<rparr>))"

section \<open>The remaining waiting time\<close>

lemmas date_fns_defs = addMilliseconds_def addMinutes_def addHours_def subHours_def
  differenceInMilliseconds_def differenceInMinutes_def

lemma getWaitingTime_div:
  "getWaitingTime l w now = max 0 (w + (l - now) div 60000)"
  unfolding getWaitingTime_def date_fns_defs Let_def
  by (auto simp: max_def algebra_simps zdiv_zminus1_eq_if split: if_splits)

lemma getWaitingTime_simple_eq: "getWaitingTime_simple l now = getWaitingTime l 60 now"
  by (simp add: getWaitingTime_simple_def getWaitingTime_def date_fns_defs)

lemma elapsed_ceiling: "\<lceil>real_of_int (now - l) / 60000\<rceil> = - ((l - now) div 60000)"
  using ceiling_divide_eq_div[of "now - l" 60000] by simp

text \<open>
  C1, as the specification states it, fails: thirty seconds after the last record no
  whole minute has elapsed, so the specification's formula gives 60 of 60 minutes, and
  the code gives 59.
\<close>

theorem getWaitingTime_differs_from_spec:
  "getWaitingTime 0 60 30000 = 59
   \<and> getWaitingTime_simple 0 30000 = 59
   \<and> minutesElapsed 0 30000 = 0
   \<and> waitingTimeRemaining_spec 0 60 30000 = 60
   \<and> getWaitingTime 0 60 30000 \<noteq> waitingTimeRemaining_spec 0 60 30000"
  by (simp add: getWaitingTime_def getWaitingTime_simple_def waitingTimeRemaining_spec_def
      minutesElapsed_def date_fns_defs)

text \<open>
  C1, amended: the remaining waiting time is the waiting minutes minus the minutes
  elapsed since the last record rounded up to a whole minute, never below 0; it is a
  non-negative integer, it agrees with the specification's formula whenever a whole
  number of minutes has elapsed, and the simple variant is the case of 60 minutes.
\<close>

theorem getWaitingTime_rounds_elapsed_up:
  "getWaitingTime l w now = max 0 (w - \<lceil>real_of_int (now - l) / 60000\<rceil>)
   \<and> 0 \<le> getWaitingTime l w now
   \<and> getWaitingTime l w (l + 60000 * k) = waitingTimeRemaining_spec l w (l + 60000 * k)
   \<and> getWaitingTime_simple l now = getWaitingTime l 60 now"
proof -
  have "getWaitingTime l w now = max 0 (w - \<lceil>real_of_int (now - l) / 60000\<rceil>)"
    unfolding getWaitingTime_div elapsed_ceiling by simp
  moreover have "0 \<le> getWaitingTime l w now"
    by (simp add: getWaitingTime_div)
  moreover have
    "getWaitingTime l w (l + 60000 * k) = waitingTimeRemaining_spec l w (l + 60000 * k)"
    unfolding getWaitingTime_div waitingTimeRemaining_spec_def minutesElapsed_def
      date_fns_defs Let_def
    by (auto simp: max_def)
  ultimately show ?thesis
    by (simp add: getWaitingTime_simple_eq)
qed

text \<open>
  C2, as the specification states it, fails: one millisecond before the last record plus
  60 minutes the result is already 0, not positive.
\<close>

theorem getWaitingTime_zero_before_deadline:
  "(3599999 :: int) < addMinutes 0 60 \<and> getWaitingTime 0 60 3599999 = 0"
  by (simp add: getWaitingTime_def date_fns_defs)

text \<open>
  C2, amended: the remaining waiting time never increases as \<open>now\<close> advances, and it is
  0 exactly when \<open>now\<close> is later than one minute before the last record plus the waiting
  minutes; up to and including that instant it is positive.
\<close>

theorem getWaitingTime_antimono_zero:
  "(now1 \<le> now2 \<longrightarrow> getWaitingTime l w now2 \<le> getWaitingTime l w now1)
   \<and> (getWaitingTime l w now = 0 \<longleftrightarrow> addMinutes l w - 60000 < now)
   \<and> (0 < getWaitingTime l w now \<longleftrightarrow> now \<le> addMinutes l w - 60000)"
proof -
  have mono: "now1 \<le> now2 \<longrightarrow> getWaitingTime l w now2 \<le> getWaitingTime l w now1"
    unfolding getWaitingTime_div
    by (auto simp: max_def intro: zdiv_mono1 order_trans)
  have zero: "getWaitingTime l w now = 0 \<longleftrightarrow> addMinutes l w - 60000 < now"
    unfolding getWaitingTime_div date_fns_defs
    by (auto simp: max_def)
  have "0 \<le> getWaitingTime l w now"
    by (simp add: getWaitingTime_div)
  with zero have "0 < getWaitingTime l w now \<longleftrightarrow> now \<le> addMinutes l w - 60000"
    by linarith
  with mono zero show ?thesis by blast
qed

theorem getWaitingTime_antimono_zero_witness:
  "(0 :: int) \<le> 60000 \<and> getWaitingTime 0 60 60000 \<le> getWaitingTime 0 60 0
   \<and> getWaitingTime 0 60 60000 = 59 \<and> getWaitingTime 0 60 0 = 60"
  using getWaitingTime_antimono_zero [of 0 60000 0 60 0]
  by (simp add: getWaitingTime_def date_fns_defs)

section \<open>Totals\<close>

lemma foldl_amount:
  fixes a :: "'n::monoid_add"
  shows "foldl (\<lambda>sum record. sum + amount record) a xs = a + sum_list (map amount xs)"
  by (induction xs arbitrary: a) (simp_all add: add.assoc)

lemma totalConsumption_sum_list: "totalConsumption recs = sum_list (map amount recs)"
  by (simp add: totalConsumption_def foldl_amount)

lemma calculateRecentConsumption_sum_list:
  "calculateRecentConsumption recs h now =
     sum_list (map amount (filter (\<lambda>r. now - h * 3600000 < timestamp r) recs))"
  by (simp add: calculateRecentConsumption_def foldl_amount date_fns_defs)

lemma sum_list_filter_le:
  fixes xs :: "('n::ordered_comm_monoid_add) consumption list"
  assumes "\<forall>r\<in>set xs. 0 \<le> amount r"
  shows "sum_list (map amount (filter P xs)) \<le> sum_list (map amount xs)"
  using assms
proof (induction xs)
  case Nil
  then show ?case by simp
next
  case (Cons x xs)
  then have ih: "sum_list (map amount (filter P xs)) \<le> sum_list (map amount xs)"
    by simp
  from Cons.prems have nonneg: "0 \<le> amount x"
    by simp
  show ?case
  proof (cases "P x")
    case True
    with ih show ?thesis by (simp add: add_left_mono)
  next
    case False
    with ih nonneg show ?thesis by (simp add: add_increasing)
  qed
qed

text \<open>
  C3: the recent consumption is the sum of the amounts of exactly the records whose
  timestamp is strictly later than \<open>now\<close> minus \<open>hoursAgo\<close> hours. A record whose
  timestamp is the cutoff itself adds nothing, wherever it stands in the list, and one a
  millisecond later adds its amount.
\<close>

theorem calculateRecentConsumption_strictly_after_cutoff:
  "calculateRecentConsumption recs h now =
     sum_list (map amount (filter (\<lambda>r. now - h * 3600000 < timestamp r) recs))
   \<and> calculateRecentConsumption (xs @ [r\<lparr>timestamp := now - h * 3600000\<rparr>] @ ys) h now =
       calculateRecentConsumption (xs @ ys) h now
   \<and> calculateRecentConsumption (xs @ [r\<lparr>timestamp := now - h * 3600000 + 1\<rparr>] @ ys) h now =
       calculateRecentConsumption xs h now + amount r + calculateRecentConsumption ys h now"
  by (simp add: calculateRecentConsumption_sum_list add.assoc)

text \<open>
  C9: on records whose amounts are not negative, as the data model has them, the recent
  consumption is at most the total consumption, for every window and every \<open>now\<close>; the
  total consumption is the sum of all amounts, and 0 on the empty list.
\<close>

theorem calculateRecentConsumption_le_totalConsumption:
  fixes recs :: "('n::ordered_comm_monoid_add) consumption list"
  shows "((\<forall>r\<in>set recs. 0 \<le> amount r) \<longrightarrow>
           calculateRecentConsumption recs h now \<le> totalConsumption recs)
   \<and> totalConsumption recs = sum_list (map amount recs)
   \<and> totalConsumption ([] :: 'n consumption list) = 0"
  by (simp add: calculateRecentConsumption_sum_list totalConsumption_sum_list
      sum_list_filter_le)

theorem calculateRecentConsumption_le_totalConsumption_witness:
  "(0 :: real) \<le> amount \<lparr>timestamp = 0, amount = 30\<rparr>
   \<and> (0 :: real) \<le> amount \<lparr>timestamp = 5400000, amount = 20\<rparr>
   \<and> calculateRecentConsumption
        [\<lparr>timestamp = 0, amount = 30 :: real\<rparr>, \<lparr>timestamp = 5400000, amount = 20\<rparr>] 1 6000000
       \<le> totalConsumption
        [\<lparr>timestamp = 0, amount = 30 :: real\<rparr>, \<lparr>timestamp = 5400000, amount = 20\<rparr>]
   \<and> calculateRecentConsumption
        [\<lparr>timestamp = 0, amount = 30 :: real\<rparr>, \<lparr>timestamp = 5400000, amount = 20\<rparr>] 1 6000000
       = 20
   \<and> totalConsumption
        [\<lparr>timestamp = 0, amount = 30 :: real\<rparr>, \<lparr>timestamp = 5400000, amount = 20\<rparr>] = 50"
  using calculateRecentConsumption_le_totalConsumption
    [of "[\<lparr>timestamp = 0, amount = 30 :: real\<rparr>, \<lparr>timestamp = 5400000, amount = 20\<rparr>]"
        1 6000000]
  by (simp add: calculateRecentConsumption_def totalConsumption_def date_fns_defs)

text \<open>
  The specification's scenario: records of 30 at \<open>T0\<close> and of 20 at \<open>T0\<close> plus 90
  minutes, 60 waiting minutes, and \<open>now\<close> at \<open>T0\<close> plus 100 minutes.
\<close>

lemma scenario_alice:
  "totalConsumption
     [\<lparr>timestamp = 0, amount = 30 :: real\<rparr>, \<lparr>timestamp = 5400000, amount = 20\<rparr>] = 50
   \<and> minutesSinceLastConsumption
     [\<lparr>timestamp = 0, amount = 30 :: real\<rparr>, \<lparr>timestamp = 5400000, amount = 20\<rparr>] 6000000
       = Some 10
   \<and> getWaitingTime 5400000 60 6000000 = 50"
  by (simp add: totalConsumption_def minutesSinceLastConsumption_def lastConsumptionTime_def
      getWaitingTime_def date_fns_defs)

section \<open>The stored document\<close>

lemma map_of_set_prop_other: "k' \<noteq> k \<Longrightarrow> map_of (set_prop obj k v) k' = map_of obj k'"
  by (induction obj) auto

lemma map_of_set_prop_same: "k \<noteq> ''__proto__'' \<Longrightarrow> map_of (set_prop obj k v) k = Some v"
  by (induction obj) auto

lemma map_of_set_prop_own: "map_of obj k = Some w \<Longrightarrow> map_of (set_prop obj k v) k = Some v"
  by (induction obj) (auto split: if_splits)

lemma set_prop_proto_not_own:
  "map_of obj ''__proto__'' = None \<Longrightarrow> set_prop obj ''__proto__'' v = obj"
  by (induction obj) (auto split: if_splits)

lemma map_of_key_filter: "map_of xs k = map_of (filter (\<lambda>p. fst p = k) xs) k"
  by (induction xs) auto

lemma key_filter_sort_key:
  "filter (\<lambda>p. fst p = k) (sort_key (\<lambda>p. g (fst p)) xs) = filter (\<lambda>p. fst p = k) xs"
proof -
  have "filter (\<lambda>p. fst p = k) (sort_key (\<lambda>p. g (fst p)) xs)
      = filter (\<lambda>p. fst p = k) (filter (\<lambda>p. g (fst p) = g k) (sort_key (\<lambda>p. g (fst p)) xs))"
    by (simp add: conj_commute cong: conj_cong)
  also have "\<dots> = filter (\<lambda>p. fst p = k) (filter (\<lambda>p. g (fst p) = g k) xs)"
    by (simp only: sort_key_stable)
  also have "\<dots> = filter (\<lambda>p. fst p = k) xs"
    by (simp add: conj_commute cong: conj_cong)
  finally show ?thesis .
qed

lemma map_of_sort_key: "map_of (sort_key (\<lambda>p. g (fst p)) xs) k = map_of xs k"
  using map_of_key_filter[of "sort_key (\<lambda>p. g (fst p)) xs" k] map_of_key_filter[of xs k]
  by (simp add: key_filter_sort_key)

lemma map_of_filter_key:
  "map_of (filter (\<lambda>p. P (fst p)) xs) k = (if P k then map_of xs k else None)"
  by (induction xs) auto

lemma map_of_Object_entries: "map_of (Object_entries obj) k = map_of obj k"
proof -
  have rest: "map_of (filter (\<lambda>p. \<not> isArrayIndex (fst p)) obj) k
               = (if \<not> isArrayIndex k then map_of obj k else None)"
    by (rule map_of_filter_key)
  have indices:
    "map_of (sort_key (\<lambda>p. decimalValue (fst p)) (filter (\<lambda>p. isArrayIndex (fst p)) obj)) k
       = (if isArrayIndex k then map_of obj k else None)"
    by (simp only: map_of_sort_key map_of_filter_key)
  show ?thesis
    unfolding Object_entries_def map_of_append map_add_def indices rest
    by (simp split: option.split)
qed

lemma map_of_map_values:
  "map_of (map (\<lambda>(k, v). (k, f v)) xs) k = map_option f (map_of xs k)"
  by (induction xs) auto

lemma map_of_JSON_parse:
  "map_of (JSON_parse entries) k =
     map_option (map (\<lambda>r. \<lparr>timestamp = timestamp r, amount = JSON_parse_amount (amount r)\<rparr>))
       (map_of entries k)"
  by (simp add: JSON_parse_def map_of_map_values)

lemma map_of_JSON_stringify:
  "map_of (JSON_stringify users) k =
     map_option (map (\<lambda>r. \<lparr>timestamp = timestamp r, amount = JSON_stringify_amount (amount r)\<rparr>))
       (map_of users k)"
proof -
  have "map_of (JSON_stringify users) k =
     map_option (map (\<lambda>r. \<lparr>timestamp = timestamp r, amount = JSON_stringify_amount (amount r)\<rparr>))
       (map_of (Object_entries users) k)"
    by (simp add: JSON_stringify_def map_of_map_values)
  then show ?thesis
    by (simp only: map_of_Object_entries)
qed

lemma JSON_stringify_parse_amount: "JSON_stringify_amount (JSON_parse_amount a) = a"
  by (simp add: JSON_stringify_amount_def JSON_parse_amount_def split: option.split)

lemma JSON_stringify_parse_records:
  "map (\<lambda>r. \<lparr>timestamp = timestamp r, amount = JSON_stringify_amount (amount r)\<rparr>)
     (map (\<lambda>r. \<lparr>timestamp = timestamp r, amount = JSON_parse_amount (amount r)\<rparr>) recs) = recs"
  by (induction recs) (simp_all add: JSON_stringify_parse_amount)

lemma get_prop_map_of:
  "get_prop obj k = get_prop obj' k \<longleftrightarrow> map_of obj k = map_of obj' k"
  by (auto simp: get_prop_def split: option.splits if_splits)

lemma get_prop_JSON_parse_Inherited:
  "get_prop (JSON_parse entries) k = Inherited \<longleftrightarrow> get_prop entries k = Inherited"
  by (auto simp: get_prop_def map_of_JSON_parse split: option.splits if_splits)

lemma stored_after_saveUsers:
  "map_of (getStoredUsers (saveUsers users ls)) k =
     map_option (map (\<lambda>r. \<lparr>timestamp = timestamp r, amount = JSON_stringify_amount (amount r)\<rparr>))
       (map_of users k)"
  by (simp add: getStoredUsers_def saveUsers_def map_of_JSON_stringify)

lemma waitingTime_saveUsers: "waitingTime (saveUsers users ls) = waitingTime ls"
  by (simp add: saveUsers_def)

lemma stored_other_user:
  assumes "k \<noteq> cu"
  shows "map_of (getStoredUsers (saveUsers (set_prop (JSON_parse (getStoredUsers ls)) cu v) ls)) k
           = map_of (getStoredUsers ls) k"
proof -
  have "map_of (getStoredUsers (saveUsers (set_prop (JSON_parse (getStoredUsers ls)) cu v) ls)) k
      = map_option (map (\<lambda>r. \<lparr>timestamp = timestamp r, amount = JSON_stringify_amount (amount r)\<rparr>))
          (map_of (JSON_parse (getStoredUsers ls)) k)"
    using assms by (simp add: stored_after_saveUsers map_of_set_prop_other)
  also have "\<dots> = map_of (getStoredUsers ls) k"
    by (cases "map_of (getStoredUsers ls) k")
       (simp_all add: map_of_JSON_parse JSON_stringify_parse_records del: map_map)
  finally show ?thesis .
qed

text \<open>
  Creating a user whose ID is not \<open>__proto__\<close>: the stored document binds the ID to the
  empty record list, existing or not before, and a search for the ID, from any state of
  the component, finds the user with the empty record list and no prompt.
\<close>

lemma handleCreateUser_ordinary_id:
  assumes "userId c \<noteq> ''__proto__''"
  shows "get_prop (getStoredUsers (fst (handleCreateUser (ls, c)))) (userId c) = Own []"
    and "currentUser (snd (handleCreateUser (ls, c))) = Some (userId c)"
    and "records (snd (handleCreateUser (ls, c))) = []"
    and "handleSearch (Some (userId c)) (fst (handleCreateUser (ls, c)), c')
           = Inr (fst (handleCreateUser (ls, c)),
                  c'\<lparr>currentUser := Some (userId c), records := [], showNewUserPrompt := False,
                     userId := userId c, suggestions := []\<rparr>)"
proof -
  have stored: "map_of (getStoredUsers (fst (handleCreateUser (ls, c)))) (userId c) = Some []"
    using assms
    by (simp add: handleCreateUser_def Let_def stored_after_saveUsers map_of_set_prop_same)
  then show "get_prop (getStoredUsers (fst (handleCreateUser (ls, c)))) (userId c) = Own []"
    by (simp add: get_prop_def)
  show "currentUser (snd (handleCreateUser (ls, c))) = Some (userId c)"
    and "records (snd (handleCreateUser (ls, c))) = []"
    by (simp_all add: handleCreateUser_def Let_def)
  from stored
  have "get_prop (JSON_parse (getStoredUsers (fst (handleCreateUser (ls, c))))) (userId c) = Own []"
    by (simp add: get_prop_def map_of_JSON_parse)
  then show "handleSearch (Some (userId c)) (fst (handleCreateUser (ls, c)), c')
           = Inr (fst (handleCreateUser (ls, c)),
                  c'\<lparr>currentUser := Some (userId c), records := [], showNewUserPrompt := False,
                     userId := userId c, suggestions := []\<rparr>)"
    by (simp add: handleSearch_def Let_def)
qed

text \<open>
  C5 holds of every ID but one. With \<open>__proto__\<close> in the ID field (the prompt is open
  after a search for an unknown ID, and the field can be edited before the button is
  pressed), \<open>users[userId] = []\<close> sets the prototype of the object: the stored document
  gets no entry, reading the ID afterwards gives the inherited member and not an empty
  list, and the search for it ends in a \<open>TypeError\<close>.
\<close>

theorem handleCreateUser_proto_stores_nothing:
  "alcoholTracker (fst (handleCreateUser
      (\<lparr>alcoholTracker = None, waitingTime = None\<rparr>,
       \<lparr>userId = ''__proto__'', showNewUserPrompt = True, currentUser = None, amountText = [],
        records = [], suggestions = []\<rparr>))) = Some []
   \<and> get_prop (getStoredUsers (fst (handleCreateUser
      (\<lparr>alcoholTracker = None, waitingTime = None\<rparr>,
       \<lparr>userId = ''__proto__'', showNewUserPrompt = True, currentUser = None, amountText = [],
        records = [], suggestions = []\<rparr>)))) ''__proto__'' = Inherited
   \<and> currentUser (snd (handleCreateUser
      (\<lparr>alcoholTracker = None, waitingTime = None\<rparr>,
       \<lparr>userId = ''__proto__'', showNewUserPrompt = True, currentUser = None, amountText = [],
        records = [], suggestions = []\<rparr>))) = Some ''__proto__''
   \<and> handleSearch (Some ''__proto__'') (handleCreateUser
      (\<lparr>alcoholTracker = None, waitingTime = None\<rparr>,
       \<lparr>userId = ''__proto__'', showNewUserPrompt = True, currentUser = None, amountText = [],
        records = [], suggestions = []\<rparr>)) = Inl TypeError"
  by code_simp

text \<open>
  C10: appending a record leaves the record list of every ID other than the current
  user as it was in the stored document, and leaves the stored waiting time as it was.
\<close>

theorem handleAddRecord_frame:
  "Some k \<noteq> currentUser c \<Longrightarrow>
   get_prop (getStoredUsers (fst (stateAfter (ls, c) (handleAddRecord parseAmount now (ls, c))))) k
     = get_prop (getStoredUsers ls) k
   \<and> waitingTime (fst (stateAfter (ls, c) (handleAddRecord parseAmount now (ls, c))))
     = waitingTime ls"
proof (cases "currentUser c")
  case None
  then show ?thesis
    by (simp add: handleAddRecord_def stateAfter_def)
next
  case (Some cu)
  assume "Some k \<noteq> currentUser c"
  with Some have neq: "k \<noteq> cu"
    by auto
  show ?thesis
  proof (cases "get_prop (JSON_parse (getStoredUsers ls)) cu")
    case Inherited
    with Some show ?thesis
      by (simp add: handleAddRecord_def stateAfter_def Let_def)
  next
    case Undefined
    with Some neq show ?thesis
      by (simp add: handleAddRecord_def stateAfter_def Let_def get_prop_map_of
          stored_other_user waitingTime_saveUsers)
  next
    case (Own old)
    with Some neq show ?thesis
      by (simp add: handleAddRecord_def stateAfter_def Let_def get_prop_map_of
          stored_other_user waitingTime_saveUsers)
  qed
qed

theorem handleAddRecord_frame_witness:
  "Some ''alice'' \<noteq> currentUser
      \<lparr>userId = ''bob'', showNewUserPrompt = False, currentUser = Some ''bob'',
       amountText = ''2.5'', records = ([] :: number option consumption list), suggestions = []\<rparr>
   \<and> get_prop (getStoredUsers (fst (stateAfter
        (\<lparr>alcoholTracker = Some [(''alice'', [\<lparr>timestamp = 7, amount = Some 30\<rparr>]), (''bob'', [])],
          waitingTime = Some ''45''\<rparr>,
         \<lparr>userId = ''bob'', showNewUserPrompt = False, currentUser = Some ''bob'',
          amountText = ''2.5'', records = [], suggestions = []\<rparr>)
        (handleAddRecord parseFloat 1000
        (\<lparr>alcoholTracker = Some [(''alice'', [\<lparr>timestamp = 7, amount = Some 30\<rparr>]), (''bob'', [])],
          waitingTime = Some ''45''\<rparr>,
         \<lparr>userId = ''bob'', showNewUserPrompt = False, currentUser = Some ''bob'',
          amountText = ''2.5'', records = [], suggestions = []\<rparr>))))) ''alice''
       = Own [\<lparr>timestamp = 7, amount = Some 30\<rparr>]
   \<and> get_prop (getStoredUsers (fst (stateAfter
        (\<lparr>alcoholTracker = Some [(''alice'', [\<lparr>timestamp = 7, amount = Some 30\<rparr>]), (''bob'', [])],
          waitingTime = Some ''45''\<rparr>,
         \<lparr>userId = ''bob'', showNewUserPrompt = False, currentUser = Some ''bob'',
          amountText = ''2.5'', records = [], suggestions = []\<rparr>)
        (handleAddRecord parseFloat 1000
        (\<lparr>alcoholTracker = Some [(''alice'', [\<lparr>timestamp = 7, amount = Some 30\<rparr>]), (''bob'', [])],
          waitingTime = Some ''45''\<rparr>,
         \<lparr>userId = ''bob'', showNewUserPrompt = False, currentUser = Some ''bob'',
          amountText = ''2.5'', records = [], suggestions = []\<rparr>))))) ''bob''
       = Own [\<lparr>timestamp = 1000, amount = Some 2.5\<rparr>]
   \<and> waitingTime (fst (stateAfter
        (\<lparr>alcoholTracker = Some [(''alice'', [\<lparr>timestamp = 7, amount = Some 30\<rparr>]), (''bob'', [])],
          waitingTime = Some ''45''\<rparr>,
         \<lparr>userId = ''bob'', showNewUserPrompt = False, currentUser = Some ''bob'',
          amountText = ''2.5'', records = [], suggestions = []\<rparr>)
        (handleAddRecord parseFloat 1000
        (\<lparr>alcoholTracker = Some [(''alice'', [\<lparr>timestamp = 7, amount = Some 30\<rparr>]), (''bob'', [])],
          waitingTime = Some ''45''\<rparr>,
         \<lparr>userId = ''bob'', showNewUserPrompt = False, currentUser = Some ''bob'',
          amountText = ''2.5'', records = [], suggestions = []\<rparr>)))) = Some ''45''"
  using handleAddRecord_frame [of "''alice''"
      "\<lparr>userId = ''bob'', showNewUserPrompt = False, currentUser = Some ''bob'',
        amountText = ''2.5'', records = [], suggestions = []\<rparr>"
      "\<lparr>alcoholTracker = Some [(''alice'', [\<lparr>timestamp = 7, amount = Some 30\<rparr>]), (''bob'', [])],
          waitingTime = Some ''45''\<rparr>"
      parseFloat 1000]
  by code_simp

section \<open>Appending a record\<close>

text \<open>
  The handler changes nothing when the amount text is empty or no user is selected, and
  so when the text typed into the amount field is not a number, because the field's
  value is then the empty string.
\<close>

lemma handleAddRecord_guard:
  assumes "amountText c = [] \<or> currentUser c = None \<or> currentUser c = Some []"
  shows "handleAddRecord parseAmount now (ls, c) = Inr (ls, c)"
  using assms by (auto simp: handleAddRecord_def split: option.splits)

lemma handleAddRecord_not_a_number:
  assumes "\<not> validFloatingPointNumber typed"
  shows "handleAddRecord parseAmount now (onChangeAmount typed (ls, c))
           = Inr (onChangeAmount typed (ls, c))"
  using assms
  by (simp add: onChangeAmount_def numberInputValue_def handleAddRecord_def split: option.splits)

text \<open>
  Otherwise, when the current user is an own key of the stored document or no member of
  the prototype, the handler appends exactly one record to the user's list (the empty
  list when there is none): the list it shows ends in the record with the timestamp
  \<open>now\<close> and the number that \<open>parseAmount\<close> read, the stored list ends in that record as
  JSON writes it, and the amount text is cleared.
\<close>

lemma handleAddRecord_appends:
  assumes "amountText c \<noteq> []" and "currentUser c = Some cu" and "cu \<noteq> []"
    and "get_prop (getStoredUsers ls) cu \<noteq> Inherited"
  shows "\<exists>ls' c'. handleAddRecord parseAmount now (ls, c) = Inr (ls', c')
    \<and> get_prop (getStoredUsers ls') cu
        = Own ((case get_prop (getStoredUsers ls) cu of Own old \<Rightarrow> old | _ \<Rightarrow> [])
               @ [\<lparr>timestamp = now,
                   amount = JSON_stringify_amount (Some (parseAmount (amountText c)))\<rparr>])
    \<and> records c'
        = (case get_prop (JSON_parse (getStoredUsers ls)) cu of Own old \<Rightarrow> old | _ \<Rightarrow> [])
          @ [\<lparr>timestamp = now, amount = Some (parseAmount (amountText c))\<rparr>]
    \<and> amountText c' = []
    \<and> waitingTime ls' = waitingTime ls"
proof -
  let ?users = "JSON_parse (getStoredUsers ls)"
  let ?new = "\<lparr>timestamp = now, amount = Some (parseAmount (amountText c))\<rparr>"
  let ?updated = "(case get_prop ?users cu of Own old \<Rightarrow> old | _ \<Rightarrow> []) @ [?new]"
  let ?ls' = "saveUsers (set_prop ?users cu ?updated) ls"
  from assms(4) have not_inherited: "get_prop ?users cu \<noteq> Inherited"
    by (simp add: get_prop_JSON_parse_Inherited)
  with assms(1-3) have result:
    "handleAddRecord parseAmount now (ls, c)
       = Inr (?ls', c\<lparr>records := ?updated, amountText := []\<rparr>)"
    by (cases "get_prop ?users cu") (simp_all add: handleAddRecord_def Let_def)
  have assigned: "map_of (set_prop ?users cu ?updated) cu = Some ?updated"
  proof (cases "map_of ?users cu")
    case None
    with not_inherited have "cu \<noteq> ''__proto__''"
      by (auto simp: get_prop_def Object_prototype_names_def)
    then show ?thesis
      by (rule map_of_set_prop_same)
  next
    case (Some old)
    then show ?thesis
      by (rule map_of_set_prop_own)
  qed
  let ?stringify = "map (\<lambda>r. \<lparr>timestamp = timestamp r, amount = JSON_stringify_amount (amount r)\<rparr>)"
  have "map_of (getStoredUsers ?ls') cu = Some (?stringify ?updated)"
    unfolding stored_after_saveUsers assigned by simp
  then have own: "get_prop (getStoredUsers ?ls') cu = Own (?stringify ?updated)"
    by (simp add: get_prop_def)
  have "?stringify ?updated
        = (case get_prop (getStoredUsers ls) cu of Own old \<Rightarrow> old | _ \<Rightarrow> [])
          @ [\<lparr>timestamp = now,
              amount = JSON_stringify_amount (Some (parseAmount (amountText c)))\<rparr>]"
    by (cases "map_of (getStoredUsers ls) cu")
       (simp_all add: get_prop_def map_of_JSON_parse JSON_stringify_parse_records del: map_map)
  with own have stored: "get_prop (getStoredUsers ?ls') cu
        = Own ((case get_prop (getStoredUsers ls) cu of Own old \<Rightarrow> old | _ \<Rightarrow> [])
               @ [\<lparr>timestamp = now,
                   amount = JSON_stringify_amount (Some (parseAmount (amountText c)))\<rparr>])"
    by (simp only:)
  from result stored show ?thesis
    by (simp add: waitingTime_saveUsers)
qed

text \<open>
  What the amount field lets through, \<open>parseFloat\<close> reads as a finite number, so the
  record of \<open>src/unnamed/part_000\<close> has a numeric amount and JSON writes it as a number.
\<close>

lemma isDigit_not_isWhiteSpace: "isDigit c \<Longrightarrow> \<not> isWhiteSpace c"
  by (auto simp: isDigit_def isWhiteSpace_def Let_def)

lemma not_isDigit_chars:
  "\<not> isDigit (CHR ''-'')" "\<not> isDigit (CHR ''+'')" "\<not> isDigit (CHR ''.'')"
  "\<not> isDigit (CHR ''I'')" "\<not> isWhiteSpace (CHR ''-'')" "\<not> isWhiteSpace (CHR ''.'')"
  by (simp_all add: isDigit_def isWhiteSpace_def)

lemma parseFloat_unsigned_Finite:
  assumes "u = c # cs" and "isDigit c \<or> c = CHR ''.''"
    and "takeWhile isDigit u \<noteq> []
         \<or> (\<exists>ds. dropWhile isDigit u = CHR ''.'' # ds \<and> takeWhile isDigit ds \<noteq> [])"
  shows "\<exists>r. (if startsWith u ''Infinity'' then (if negative then NegInfinity else PosInfinity)
         else
           let intDigits = takeWhile isDigit u;
               afterInt = dropWhile isDigit u;
               (fracDigits, afterFrac) =
                 (case afterInt of
                    [] \<Rightarrow> ([], [])
                  | c # cs \<Rightarrow>
                      if c = CHR ''.'' then (takeWhile isDigit cs, dropWhile isDigit cs)
                      else ([], afterInt))
           in if intDigits = [] \<and> fracDigits = [] then NaN
              else
                let e = parseExponent afterFrac;
                    mantissa = real_of_int (decimalValue intDigits)
                      + real_of_int (decimalValue fracDigits) / 10 ^ length fracDigits;
                    v = (if 0 \<le> e then mantissa * 10 ^ nat e else mantissa / 10 ^ nat (- e))
                in Finite (if negative then - v else v)) = Finite r"
proof -
  from assms(1,2) have "\<not> startsWith u ''Infinity''"
    using not_isDigit_chars by auto
  moreover have "dropWhile isDigit u = CHR ''.'' # ds \<Longrightarrow> dropWhile isDigit u \<noteq> []" for ds
    by simp
  ultimately show ?thesis
    using assms(3)
    by (cases "dropWhile isDigit u") (auto simp: Let_def simp del: dropWhile_eq_Nil_conv)
qed

lemma parseFloat_number_input:
  assumes "validFloatingPointNumber s"
  shows "\<exists>r. parseFloat s = Finite r"
proof -
  define u where "u = (case s of [] \<Rightarrow> [] | c # cs \<Rightarrow> if c = CHR ''-'' then cs else s)"
  from assms have shape:
    "takeWhile isDigit u \<noteq> []
     \<or> (\<exists>ds. dropWhile isDigit u = CHR ''.'' # ds \<and> takeWhile isDigit ds \<noteq> [])"
    unfolding validFloatingPointNumber_def u_def [symmetric]
    by (auto simp: Let_def split: list.splits if_splits)
  then obtain c cs where u: "u = c # cs" and first: "isDigit c \<or> c = CHR ''.''"
    by (cases u) (auto split: if_splits)
  have s: "s = u \<or> s = CHR ''-'' # u"
    using u by (auto simp: u_def split: list.splits if_splits)
  from u first have nospace: "dropWhile isWhiteSpace u = u"
    using isDigit_not_isWhiteSpace not_isDigit_chars by auto
  from u first have sign: "parseSign u = (False, u)"
    using not_isDigit_chars by (auto simp: parseSign_def)
  from s show ?thesis
  proof
    assume "s = u"
    then show ?thesis
      unfolding parseFloat_def
      using parseFloat_unsigned_Finite [OF u first shape, of False] nospace sign
      by (simp add: Let_def)
  next
    assume "s = CHR ''-'' # u"
    then show ?thesis
      unfolding parseFloat_def
      using parseFloat_unsigned_Finite [OF u first shape, of True] not_isDigit_chars
      by (simp add: Let_def parseSign_def)
  qed
qed

lemma amount_of_number_input:
  assumes "validFloatingPointNumber typed"
  shows "\<exists>r. JSON_stringify_amount (Some (parseFloat (numberInputValue typed))) = Some r"
  using parseFloat_number_input [OF assms] assms
  by (auto simp: numberInputValue_def JSON_stringify_amount_def)

lemma numberInputValue_examples:
  "numberInputValue ''abc'' = [] \<and> numberInputValue ''5'' = ''5''
   \<and> numberInputValue ''2.5'' = ''2.5'' \<and> parseFloat ''2.5'' = Finite 2.5"
  by code_simp

text \<open>
  C4 holds but for one state. After a user has been created with the ID \<open>__proto__\<close>,
  that ID is the current user and the amount field is shown. With the amount \<open>5\<close> typed
  and submitted, \<open>users[currentUser]\<close> is the inherited member, the spread throws, and
  no record is appended or saved: the stored document is as before.
\<close>

theorem handleAddRecord_proto_throws:
  "currentUser (snd (onChangeAmount ''5'' (handleCreateUser
      (\<lparr>alcoholTracker = None, waitingTime = None\<rparr>,
       \<lparr>userId = ''__proto__'', showNewUserPrompt = True, currentUser = None, amountText = [],
        records = [], suggestions = []\<rparr>)))) = Some ''__proto__''
   \<and> amountText (snd (onChangeAmount ''5'' (handleCreateUser
      (\<lparr>alcoholTracker = None, waitingTime = None\<rparr>,
       \<lparr>userId = ''__proto__'', showNewUserPrompt = True, currentUser = None, amountText = [],
        records = [], suggestions = []\<rparr>)))) = ''5''
   \<and> handleAddRecord parseFloat 1000 (onChangeAmount ''5'' (handleCreateUser
      (\<lparr>alcoholTracker = None, waitingTime = None\<rparr>,
       \<lparr>userId = ''__proto__'', showNewUserPrompt = True, currentUser = None, amountText = [],
        records = [], suggestions = []\<rparr>))) = Inl TypeError
   \<and> getStoredUsers (fst (stateAfter
        (onChangeAmount ''5'' (handleCreateUser
          (\<lparr>alcoholTracker = None, waitingTime = None\<rparr>,
           \<lparr>userId = ''__proto__'', showNewUserPrompt = True, currentUser = None,
            amountText = [], records = [], suggestions = []\<rparr>)))
        (handleAddRecord parseFloat 1000 (onChangeAmount ''5'' (handleCreateUser
          (\<lparr>alcoholTracker = None, waitingTime = None\<rparr>,
           \<lparr>userId = ''__proto__'', showNewUserPrompt = True, currentUser = None,
            amountText = [], records = [], suggestions = []\<rparr>)))))) = []"
  by code_simp

text \<open>The same steps with the ID \<open>bob\<close> append the record.\<close>

lemma handleAddRecord_bob_appends:
  "handleAddRecord parseFloat 1000 (onChangeAmount ''5'' (handleCreateUser
      (\<lparr>alcoholTracker = None, waitingTime = None\<rparr>,
       \<lparr>userId = ''bob'', showNewUserPrompt = True, currentUser = None, amountText = [],
        records = [], suggestions = []\<rparr>)))
     = Inr (\<lparr>alcoholTracker = Some [(''bob'', [\<lparr>timestamp = 1000, amount = Some 5\<rparr>])],
              waitingTime = None\<rparr>,
            \<lparr>userId = ''bob'', showNewUserPrompt = False, currentUser = Some ''bob'',
             amountText = [], records = [\<lparr>timestamp = 1000, amount = Some (Finite 5)\<rparr>],
             suggestions = []\<rparr>)"
  by code_simp

section \<open>Suggestions\<close>

lemma startsWith_iff: "startsWith s sub \<longleftrightarrow> (\<exists>ss. s = sub @ ss)"
  by (induction s sub rule: startsWith.induct) auto

lemma str_includes_iff: "str_includes s sub \<longleftrightarrow> (\<exists>ps ss. s = ps @ sub @ ss)"
proof (induction s)
  case Nil
  then show ?case by simp
next
  case (Cons c s)
  show ?case
  proof
    assume "str_includes (c # s) sub"
    then consider "startsWith (c # s) sub" | "str_includes s sub" by auto
    then show "\<exists>ps ss. c # s = ps @ sub @ ss"
    proof cases
      case 1
      then obtain ss where "c # s = sub @ ss" by (auto simp: startsWith_iff)
      then have "c # s = [] @ sub @ ss" by simp
      then show ?thesis by blast
    next
      case 2
      with Cons.IH obtain ps ss where "s = ps @ sub @ ss" by blast
      then have "c # s = (c # ps) @ sub @ ss" by simp
      then show ?thesis by blast
    qed
  next
    assume "\<exists>ps ss. c # s = ps @ sub @ ss"
    then obtain ps ss where eq: "c # s = ps @ sub @ ss" by blast
    show "str_includes (c # s) sub"
    proof (cases ps)
      case Nil
      with eq have "startsWith (c # s) sub" by (auto simp: startsWith_iff)
      then show ?thesis by simp
    next
      case (Cons p ps')
      with eq have "s = ps' @ sub @ ss" by simp
      with Cons.IH have "str_includes s sub" by blast
      then show ?thesis by simp
    qed
  qed
qed

lemma dropWhile_all_iff: "(\<forall>x\<in>set (dropWhile P xs). P x) \<longleftrightarrow> (\<forall>x\<in>set xs. P x)"
  by (induction xs) auto

lemma trim_empty_iff: "trim s = [] \<longleftrightarrow> list_all isWhiteSpace s"
  by (simp add: trim_def dropWhile_eq_Nil_conv dropWhile_all_iff list_all_iff)

lemma map_fst_insort_key:
  "map fst (insort_key (\<lambda>p. g (fst p)) x xs) = insort_key g (fst x) (map fst xs)"
  by (induction xs) auto

lemma map_fst_sort_key:
  "map fst (sort_key (\<lambda>p. g (fst p)) xs) = sort_key g (map fst xs)"
  by (induction xs) (simp_all add: map_fst_insort_key)

lemma Object_keys_order:
  "Object_keys obj =
     sort_key decimalValue (filter isArrayIndex (map fst obj))
     @ filter (\<lambda>k. \<not> isArrayIndex k) (map fst obj)"
  by (simp add: Object_keys_def Object_entries_def map_fst_sort_key filter_map comp_def)

text \<open>
  C8, as the specification states it, fails twice. A blank makes the field's text
  non-empty and is contained in the ID \<open>a b\<close>, yet the suggestions are empty, because the
  guard is on the trimmed text. And the order is not always the order of insertion: with
  \<open>a1\<close> created before \<open>1\<close>, the suggestions for \<open>1\<close> list \<open>1\<close> first, because \<open>1\<close> is an
  array index.
\<close>

theorem suggestions_blank_and_index_order:
  "'' '' \<noteq> []
   \<and> str_includes (toLowerCase ''a b'') (toLowerCase '' '')
   \<and> suggestions (snd (suggestionsEffect
       (\<lparr>alcoholTracker = Some [(''a b'', ([] :: real option consumption list))], waitingTime = None\<rparr>,
        \<lparr>userId = '' '', showNewUserPrompt = False, currentUser = None, amountText = [],
         records = [], suggestions = []\<rparr>))) = []
   \<and> (let created_a1 = handleCreateUser
            (\<lparr>alcoholTracker = None, waitingTime = None\<rparr>,
             \<lparr>userId = ''a1'', showNewUserPrompt = True, currentUser = None, amountText = [],
              records = [], suggestions = []\<rparr>);
           created_1 = handleCreateUser (fst created_a1, (snd created_a1)\<lparr>userId := ''1''\<rparr>)
       in suggestions (snd (suggestionsEffect created_1))) = [''1'', ''a1'']"
  by code_simp

text \<open>
  C8, amended: when the field's text is empty or all white space, there are no
  suggestions. Otherwise the suggestions are exactly the stored IDs whose lower-case form
  contains the lower-case form of the text as a substring, each in its original case, in
  the order of \<open>Object.keys\<close>: the IDs that are array indices first, in ascending numeric
  order, then the other IDs in the order of their insertion. The specification's example
  is the last conjunct.
\<close>

theorem suggestions_substring_matches:
  "suggestions (snd (suggestionsEffect (ls, c))) =
     (if trim (userId c) = [] then []
      else filter (\<lambda>id. \<exists>ps ss. toLowerCase id = ps @ toLowerCase (userId c) @ ss)
             (Object_keys (getStoredUsers ls)))
   \<and> (trim (userId c) = [] \<longleftrightarrow> list_all isWhiteSpace (userId c))
   \<and> Object_keys obj =
       sort_key decimalValue (filter isArrayIndex (map fst obj))
       @ filter (\<lambda>k. \<not> isArrayIndex k) (map fst obj)
   \<and> suggestions (snd (suggestionsEffect
       (\<lparr>alcoholTracker =
            Some [(''alice'', [\<lparr>timestamp = 0, amount = 30 :: real\<rparr>]), (''bob'', []),
                  (''ALex'', [])],
          waitingTime = None\<rparr>,
        \<lparr>userId = ''AL'', showNewUserPrompt = False, currentUser = None, amountText = [],
         records = [], suggestions = []\<rparr>))) = [''alice'', ''ALex'']"
proof -
  have example: "suggestions (snd (suggestionsEffect
       (\<lparr>alcoholTracker =
            Some [(''alice'', [\<lparr>timestamp = 0, amount = 30 :: real\<rparr>]), (''bob'', []),
                  (''ALex'', [])],
          waitingTime = None\<rparr>,
        \<lparr>userId = ''AL'', showNewUserPrompt = False, currentUser = None, amountText = [],
         records = [], suggestions = []\<rparr>))) = [''alice'', ''ALex'']"
    by code_simp
  have general: "suggestions (snd (suggestionsEffect (ls, c))) =
     (if trim (userId c) = [] then []
      else filter (\<lambda>id. \<exists>ps ss. toLowerCase id = ps @ toLowerCase (userId c) @ ss)
             (Object_keys (getStoredUsers ls)))"
    by (simp add: suggestionsEffect_def Let_def str_includes_iff)
  from general example show ?thesis
    using trim_empty_iff [of "userId c"] Object_keys_order [of obj] by blast
qed

section \<open>The exported documents\<close>

lemma foldl_push: "foldl (\<lambda>rows x. rows @ [f x]) rows xs = rows @ map f xs"
  by (induction xs arbitrary: rows) simp_all

lemma downloadCSV_rows_eq:
  "downloadCSV_rows format numToString recs =
     [[''Date'', ''Time'', ''Amount (ml)'']]
     @ map (\<lambda>r. [format (timestamp r) ''yyyy-MM-dd'', format (timestamp r) ''HH:mm:ss'',
                  numToString (amount r)]) recs
     @ [[], [''Total Consumption'', '''',
             toFixed numToString (totalConsumption recs) 1 @ '' ml'']]"
  by (simp add: downloadCSV_rows_def summaryRow_def totalConsumption_def Let_def foldl_push)

lemma downloadCSV_simple_rows_eq:
  "downloadCSV_simple_rows format recs =
     [[''Date'', ''Time'', ''Amount (ml)'']]
     @ map (\<lambda>r. [format (timestamp r) ''yyyy-MM-dd'', format (timestamp r) ''HH:mm:ss'',
                  Number_toString (amount r)]) recs
     @ [[], [''Total Consumption'', '''',
             Number_toString (totalConsumption recs) @ '' ml'']]"
  by (simp add: downloadCSV_simple_rows_def summaryRow_simple_def totalConsumption_def Let_def
      foldl_push)

text \<open>
  What \<open>toFixed(1)\<close> prints below \<open>10^21\<close>: the sign, at least one digit, the point
  and exactly one digit.
\<close>

lemma isDigit_char_of: "0 \<le> d \<Longrightarrow> d < 10 \<Longrightarrow> isDigit (char_of (48 + d :: int))"
proof -
  assume "0 \<le> d" "d < 10"
  then have "d = 0 \<or> d = 1 \<or> d = 2 \<or> d = 3 \<or> d = 4 \<or> d = 5 \<or> d = 6 \<or> d = 7 \<or> d = 8 \<or> d = 9"
    by arith
  then show ?thesis by (elim disjE; simp; code_simp)
qed

lemma digitsOf_digits: "0 \<le> n \<Longrightarrow> digitsOf n \<noteq> [] \<and> list_all isDigit (digitsOf n)"
proof (induction n rule: digitsOf.induct)
  case (1 n)
  show ?case
  proof (cases "n < 10")
    case True
    with "1.prems" show ?thesis
      by (subst (1 2) digitsOf.simps) (simp add: isDigit_char_of)
  next
    case False
    with "1.prems" "1.IH" have ih: "digitsOf (n div 10) \<noteq> [] \<and> list_all isDigit (digitsOf (n div 10))"
      by simp
    have "isDigit (char_of (48 + n mod 10))"
      by (rule isDigit_char_of) simp_all
    with ih False show ?thesis
      by (subst (1 2) digitsOf.simps) simp
  qed
qed

lemma toFixed_one_decimal:
  assumes "\<bar>x\<bar> < 10 ^ 21"
  shows "\<exists>whole d. toFixed numToString x 1 = (if x < 0 then ''-'' else []) @ whole @ ''.'' @ [d]
           \<and> whole \<noteq> [] \<and> list_all isDigit whole \<and> isDigit d"
proof -
  define n where "n = \<lfloor>\<bar>x\<bar> * 10 + 1 / 2\<rfloor>"
  have n0: "0 \<le> n" unfolding n_def by (simp add: add_nonneg_nonneg)
  define m where "m = digitsOf n"
  define m' where "m' = (if length m \<le> 1 then replicate (2 - length m) (CHR ''0'') @ m else m)"
  from digitsOf_digits[OF n0] have m: "m \<noteq> []" "list_all isDigit m" by (simp_all add: m_def)
  have zero: "isDigit (CHR ''0'')" by (simp add: isDigit_def)
  have "m \<noteq> [] \<Longrightarrow> 1 \<le> length m" by (cases m) simp_all
  with m have len: "2 \<le> length m'" by (auto simp: m'_def)
  have dig: "list_all isDigit m'" using m zero by (auto simp: m'_def list_all_iff)
  have tf: "toFixed numToString x 1 = (if x < 0 then ''-'' else []) @ take (length m' - 1) m' @ ''.'' @ drop (length m' - 1) m'"
    using assms by (auto simp: toFixed_def Let_def n_def m_def m'_def abs_if)
  have "drop (length m' - 1) m' = [last m']"
    using len by (cases m' rule: rev_cases) simp_all
  moreover have "take (length m' - 1) m' \<noteq> []" using len by auto
  moreover have "list_all isDigit (take (length m' - 1) m')"
    using dig by (auto simp: list_all_iff dest: in_set_takeD)
  moreover have "isDigit (last m')" using dig len by (cases m' rule: rev_cases) (auto simp: list_all_iff)
  ultimately show ?thesis using tf by auto
qed

text \<open>
  C7, as the specification states it, fails on \<open>src/src/App.jsx\<close>: there the total of the
  summary row is printed as the number is, with no decimal place.
\<close>

theorem summaryRow_simple_no_decimal:
  "summaryRow_simple [\<lparr>timestamp = 1700000000000, amount = 30\<rparr>]
     = [''Total Consumption'', [], ''30 ml'']
   \<and> ''30 ml'' \<noteq> ''30.0 ml''"
  by code_simp

text \<open>
  C7, amended: the single-user document is, in this order and joined by line feeds, the
  header row \<open>Date,Time,Amount (ml)\<close>; one row per record in list order, with the date
  formatted by the pattern \<open>yyyy-MM-dd\<close>, the time by \<open>HH:mm:ss\<close> and the amount, joined by
  commas; an empty row; and the summary row with \<open>Total Consumption\<close>, an empty field and
  the sum of all amounts followed by \<open>ml\<close>. The sum is printed by \<open>toFixed(1)\<close> in
  \<open>src/unnamed/part_000\<close> and as the number is in \<open>src/src/App.jsx\<close>.
\<close>

theorem downloadCSV_document:
  "downloadCSV format numToString recs =
     join [CHR 0x0A] (map (join '','')
       ([[''Date'', ''Time'', ''Amount (ml)'']]
        @ map (\<lambda>r. [format (timestamp r) ''yyyy-MM-dd'', format (timestamp r) ''HH:mm:ss'',
                     numToString (amount r)]) recs
        @ [[], [''Total Consumption'', '''',
                toFixed numToString (totalConsumption recs) 1 @ '' ml'']]))
   \<and> downloadCSV_simple format irecs =
     join [CHR 0x0A] (map (join '','')
       ([[''Date'', ''Time'', ''Amount (ml)'']]
        @ map (\<lambda>r. [format (timestamp r) ''yyyy-MM-dd'', format (timestamp r) ''HH:mm:ss'',
                     Number_toString (amount r)]) irecs
        @ [[], [''Total Consumption'', '''',
                Number_toString (totalConsumption irecs) @ '' ml'']]))
   \<and> join '','' [a, b, d] = a @ '','' @ b @ '','' @ d
   \<and> join '','' [] = []"
  by (simp add: downloadCSV_def downloadCSV_simple_def csvContent_def downloadCSV_rows_eq
      downloadCSV_simple_rows_eq)

lemma foldl_totals:
  fixes a :: "'n::monoid_add"
  shows "foldl (\<lambda>total recs. total + foldl (\<lambda>sum record. sum + amount record) 0 recs) a xs
           = a + sum_list (map totalConsumption xs)"
  by (induction xs arbitrary: a) (simp_all add: totalConsumption_def add.assoc)

lemma grandTotal_sum_list:
  "grandTotal users =
     sum_list (map (\<lambda>(uid, recs). totalConsumption recs) (Object_entries users))"
  by (simp add: grandTotal_def Object_values_def foldl_totals comp_def case_prod_unfold)

lemma sum_list_skip_empty:
  fixes es :: "(string \<times> ('n::monoid_add) consumption list) list"
  shows "sum_list (map (\<lambda>(uid, recs). totalConsumption recs)
                     (filter (\<lambda>(uid, recs). recs \<noteq> []) es))
       = sum_list (map (\<lambda>(uid, recs). totalConsumption recs) es)"
  by (induction es) (auto simp: totalConsumption_def)

lemma allUsers_foldl:
  "foldl (\<lambda>csvRows (userId, records).
                       if length records = 0 then csvRows
                       else
                         let csvRows = foldl (\<lambda>csvRows record.
                                          let date = timestamp record
                                          in csvRows @ [[userId, format date ''yyyy-MM-dd'',
                                                         format date ''HH:mm:ss'',
                                                         toFixed numToString (amount record) 1]])
                                        csvRows records;
                             csvRows = csvRows @ [[]];
                             csvRows = csvRows @
                               [[''Total for '' @ userId, '''', '''',
                                 toFixed numToString
                                   (foldl (\<lambda>sum record. sum + amount record) 0 records) 1
                                   @ '' ml'']]
                         in csvRows @ [[]]) rows es
     = rows @ concat (map (\<lambda>(uid, recs).
          map (\<lambda>r. [uid, format (timestamp r) ''yyyy-MM-dd'', format (timestamp r) ''HH:mm:ss'',
                       toFixed numToString (amount r) 1]) recs
          @ [[], [''Total for '' @ uid, '''', '''',
                  toFixed numToString (totalConsumption recs) 1 @ '' ml''], []])
        (filter (\<lambda>(uid, recs). recs \<noteq> []) es))"
  by (induction es arbitrary: rows)
     (simp_all add: Let_def foldl_push totalConsumption_def case_prod_unfold)

lemma allUsers_simple_foldl:
  "foldl (\<lambda>csvRows (userId, records).
                       if length records = 0 then csvRows
                       else
                         let csvRows = foldl (\<lambda>csvRows record.
                                          let date = timestamp record
                                          in csvRows @ [[userId, format date ''yyyy-MM-dd'',
                                                         format date ''HH:mm:ss'',
                                                         Number_toString (amount record)]])
                                        csvRows records;
                             csvRows = csvRows @ [[]];
                             csvRows = csvRows @
                               [[''Total for '' @ userId, '''', '''',
                                 Number_toString
                                   (foldl (\<lambda>sum record. sum + amount record) 0 records)
                                   @ '' ml'']]
                         in csvRows @ [[]]) rows es
     = rows @ concat (map (\<lambda>(uid, recs).
          map (\<lambda>r. [uid, format (timestamp r) ''yyyy-MM-dd'', format (timestamp r) ''HH:mm:ss'',
                       Number_toString (amount r)]) recs
          @ [[], [''Total for '' @ uid, '''', '''',
                  Number_toString (totalConsumption recs) @ '' ml''], []])
        (filter (\<lambda>(uid, recs). recs \<noteq> []) es))"
  by (induction es arbitrary: rows)
     (simp_all add: Let_def foldl_push totalConsumption_def case_prod_unfold)

lemma downloadAllUsersCSV_rows_eq:
  "downloadAllUsersCSV_rows format numToString ls =
     [[''User ID'', ''Date'', ''Time'', ''Amount (ml)'']]
     @ concat (map (\<lambda>(uid, recs).
          map (\<lambda>r. [uid, format (timestamp r) ''yyyy-MM-dd'', format (timestamp r) ''HH:mm:ss'',
                       toFixed numToString (amount r) 1]) recs
          @ [[], [''Total for '' @ uid, '''', '''',
                  toFixed numToString (totalConsumption recs) 1 @ '' ml''], []])
        (filter (\<lambda>(uid, recs). recs \<noteq> []) (Object_entries (getStoredUsers ls))))
     @ [[''Grand Total'', '''', '''',
         toFixed numToString (grandTotal (getStoredUsers ls)) 1 @ '' ml'']]"
  unfolding downloadAllUsersCSV_rows_def allUsers_foldl
  by (simp add: Let_def)

lemma downloadAllUsersCSV_simple_rows_eq:
  "downloadAllUsersCSV_simple_rows format ls =
     [[''User ID'', ''Date'', ''Time'', ''Amount (ml)'']]
     @ concat (map (\<lambda>(uid, recs).
          map (\<lambda>r. [uid, format (timestamp r) ''yyyy-MM-dd'', format (timestamp r) ''HH:mm:ss'',
                       Number_toString (amount r)]) recs
          @ [[], [''Total for '' @ uid, '''', '''',
                  Number_toString (totalConsumption recs) @ '' ml''], []])
        (filter (\<lambda>(uid, recs). recs \<noteq> []) (Object_entries (getStoredUsers ls))))
     @ [[''Grand Total'', '''', '''',
         Number_toString (grandTotal (getStoredUsers ls)) @ '' ml'']]"
  unfolding downloadAllUsersCSV_simple_rows_def allUsers_simple_foldl
  by (simp add: Let_def)

text \<open>
  C6: the rows of the all-users export are the header, then for each user with at least
  one record, in the order of \<open>Object.entries\<close>, the record rows, an empty row, the
  user's total row and an empty row, and last the grand-total row; a user with no
  records adds no row at all. The amount of the grand-total row is the sum of the totals
  of all users, which is the sum of the totals in the total rows that are printed. Both
  variants agree on this; they differ in how a number is printed.
\<close>

theorem downloadAllUsersCSV_grand_total_and_rows:
  "downloadAllUsersCSV_rows format numToString ls =
     [[''User ID'', ''Date'', ''Time'', ''Amount (ml)'']]
     @ concat (map (\<lambda>(uid, recs).
          map (\<lambda>r. [uid, format (timestamp r) ''yyyy-MM-dd'', format (timestamp r) ''HH:mm:ss'',
                       toFixed numToString (amount r) 1]) recs
          @ [[], [''Total for '' @ uid, '''', '''',
                  toFixed numToString (totalConsumption recs) 1 @ '' ml''], []])
        (filter (\<lambda>(uid, recs). recs \<noteq> []) (Object_entries (getStoredUsers ls))))
     @ [[''Grand Total'', '''', '''',
         toFixed numToString (grandTotal (getStoredUsers ls)) 1 @ '' ml'']]
   \<and> downloadAllUsersCSV_simple_rows format ils =
     [[''User ID'', ''Date'', ''Time'', ''Amount (ml)'']]
     @ concat (map (\<lambda>(uid, recs).
          map (\<lambda>r. [uid, format (timestamp r) ''yyyy-MM-dd'', format (timestamp r) ''HH:mm:ss'',
                       Number_toString (amount r)]) recs
          @ [[], [''Total for '' @ uid, '''', '''',
                  Number_toString (totalConsumption recs) @ '' ml''], []])
        (filter (\<lambda>(uid, recs). recs \<noteq> []) (Object_entries (getStoredUsers ils))))
     @ [[''Grand Total'', '''', '''',
         Number_toString (grandTotal (getStoredUsers ils)) @ '' ml'']]
   \<and> grandTotal users =
       sum_list (map (\<lambda>(uid, recs). totalConsumption recs) (Object_entries users))
   \<and> grandTotal users =
       sum_list (map (\<lambda>(uid, recs). totalConsumption recs)
         (filter (\<lambda>(uid, recs). recs \<noteq> []) (Object_entries users)))"
  using downloadAllUsersCSV_rows_eq [of format numToString ls]
    downloadAllUsersCSV_simple_rows_eq [of format ils]
    grandTotal_sum_list [of users] sum_list_skip_empty [of "Object_entries users"]
  by simp

end
